theory Spec2Isabelle
  imports Complex_Main
begin

section \<open>Python values and the operations the provider applies to them\<close>

text \<open>
  The provider of \<^verbatim>\<open>src/providers/lightning_address_provider.py\<close> works on
  whatever \<^verbatim>\<open>response.json()\<close> decodes: \<^verbatim>\<open>None\<close>, a bool, an int, a float, a str,
  a list or a dict. A character of a \<open>string\<close> stands for one character of a Python str.
  A Python float is a rational or one of the three special values; Python compares an int
  with a float by their exact mathematical values, which is what \<open>float_lt\<close> does.
\<close>

datatype pyfloat = Finite rat | PosInf | NegInf | NaN

datatype pyval =
    PNone
  | PBool bool
  | PInt int
  | PFloat pyfloat
  | PStr string
  | PList "pyval list"
  | PDict "(string \<times> pyval) list"

text \<open>
  The exception classes that occur. \<open>JSONDecodeError\<close> is the class of the requests
  library, which derives from both \<open>RequestException\<close> and \<open>ValueError\<close>; the two predicates
  are the \<^verbatim>\<open>isinstance\<close> tests of the two \<^verbatim>\<open>except\<close> clauses.
\<close>

datatype exn = RequestException | JSONDecodeError | ValueError | AttributeError | TypeError

definition is_RequestException :: "exn \<Rightarrow> bool" where
  "is_RequestException e = (e = RequestException \<or> e = JSONDecodeError)"

definition is_ValueError :: "exn \<Rightarrow> bool" where
  "is_ValueError e = (e = ValueError \<or> e = JSONDecodeError)"

text \<open>Truth value of a Python object, as \<^verbatim>\<open>if not x\<close> tests it.\<close>

fun py_truthy :: "pyval \<Rightarrow> bool" where
  "py_truthy PNone = False"
| "py_truthy (PBool b) = b"
| "py_truthy (PInt n) = (n \<noteq> 0)"
| "py_truthy (PFloat f) = (f \<noteq> Finite 0)"
| "py_truthy (PStr s) = (s \<noteq> [])"
| "py_truthy (PList xs) = (xs \<noteq> [])"
| "py_truthy (PDict kvs) = (kvs \<noteq> [])"

text \<open>\<^verbatim>\<open>d.get(key, default)\<close>: only a dict has the method.\<close>

fun py_get :: "pyval \<Rightarrow> string \<Rightarrow> pyval \<Rightarrow> exn + pyval" where
  "py_get (PDict kvs) k dflt = Inr (case map_of kvs k of Some v \<Rightarrow> v | None \<Rightarrow> dflt)"
| "py_get _ k dflt = Inl AttributeError"

text \<open>The numeric value of an object that takes part in an ordering comparison with an int.\<close>

fun as_number :: "pyval \<Rightarrow> pyfloat option" where
  "as_number (PInt n) = Some (Finite (of_int n))"
| "as_number (PBool b) = Some (Finite (if b then 1 else 0))"
| "as_number (PFloat f) = Some f"
| "as_number _ = None"

fun float_lt :: "pyfloat \<Rightarrow> pyfloat \<Rightarrow> bool" where
  "float_lt (Finite a) (Finite b) = (a < b)"
| "float_lt (Finite a) PosInf = True"
| "float_lt NegInf (Finite b) = True"
| "float_lt NegInf PosInf = True"
| "float_lt _ _ = False"

text \<open>\<^verbatim>\<open>a < v\<close>, \<^verbatim>\<open>a > v\<close> and \<^verbatim>\<open>v > a\<close> for an int \<open>a\<close>: a TypeError unless \<open>v\<close> is a number.\<close>

definition py_int_lt :: "int \<Rightarrow> pyval \<Rightarrow> exn + bool" where
  "py_int_lt a v =
     (case as_number v of None \<Rightarrow> Inl TypeError
      | Some f \<Rightarrow> Inr (float_lt (Finite (of_int a)) f))"

definition py_int_gt :: "int \<Rightarrow> pyval \<Rightarrow> exn + bool" where
  "py_int_gt a v =
     (case as_number v of None \<Rightarrow> Inl TypeError
      | Some f \<Rightarrow> Inr (float_lt f (Finite (of_int a))))"

definition py_gt_int :: "pyval \<Rightarrow> int \<Rightarrow> exn + bool" where
  "py_gt_int v a =
     (case as_number v of None \<Rightarrow> Inl TypeError
      | Some f \<Rightarrow> Inr (float_lt (Finite (of_int a)) f))"

text \<open>\<^verbatim>\<open>s[:n]\<close>: the bound must be an int (a bool is one) or \<^verbatim>\<open>None\<close>.\<close>

fun py_slice_upto :: "string \<Rightarrow> pyval \<Rightarrow> exn + string" where
  "py_slice_upto s (PInt n) =
     Inr (if 0 \<le> n then take (nat n) s else take (nat (int (length s) + n)) s)"
| "py_slice_upto s (PBool b) = Inr (take (if b then 1 else 0) s)"
| "py_slice_upto s PNone = Inr s"
| "py_slice_upto s _ = Inl TypeError"

text \<open>\<^verbatim>\<open>k in c\<close> for a str \<open>k\<close>: a key of a dict, an element of a list, a substring of a str.\<close>

fun is_substring :: "string \<Rightarrow> string \<Rightarrow> bool" where
  "is_substring k [] = (k = [])"
| "is_substring k (c # cs) = (take (length k) (c # cs) = k \<or> is_substring k cs)"

fun py_contains :: "string \<Rightarrow> pyval \<Rightarrow> exn + bool" where
  "py_contains k (PDict kvs) = Inr (k \<in> set (map fst kvs))"
| "py_contains k (PList xs) = Inr (PStr k \<in> set xs)"
| "py_contains k (PStr s) = Inr (is_substring k s)"
| "py_contains k _ = Inl TypeError"

text \<open>\<^verbatim>\<open>s.strip()\<close> and \<^verbatim>\<open>s.split(sep, 1)\<close>.\<close>

definition py_isspace :: "char \<Rightarrow> bool" where
  "py_isspace c =
     (let n = (of_char c :: nat)
      in (9 \<le> n \<and> n \<le> 13) \<or> (28 \<le> n \<and> n \<le> 32) \<or> n = 133 \<or> n = 160)"

definition py_strip :: "string \<Rightarrow> string" where
  "py_strip s = rev (dropWhile py_isspace (rev (dropWhile py_isspace s)))"

definition py_split1 :: "char \<Rightarrow> string \<Rightarrow> string list" where
  "py_split1 sep s =
     (case dropWhile (\<lambda>c. c \<noteq> sep) s of
        [] \<Rightarrow> [s]
      | _ # rest \<Rightarrow> [takeWhile (\<lambda>c. c \<noteq> sep) s, rest])"

section \<open>The transport and the records of the provider\<close>

text \<open>
  A call \<^verbatim>\<open>requester(method, url, params=..., timeout=...)\<close>; the discovery calls pass
  no \<^verbatim>\<open>params\<close>. The callback URL is whatever object the discovery body holds.
\<close>

record request =
  req_method :: string
  req_url :: pyval
  req_params :: "(string \<times> pyval) list option"
  req_timeout :: int

text \<open>
  A response: its \<^verbatim>\<open>.text\<close>, what \<^verbatim>\<open>.json()\<close> returns or raises, and the HTTP status.
\<close>

record response =
  resp_text :: string
  resp_json :: "exn + pyval"
  status_code :: int

record KeysendResponse =
  pubkey :: pyval
  custom_data :: pyval

record LnurlpResponse =
  invoice :: pyval

record LightningAddressProvider =
  requester :: "request \<Rightarrow> exn + response"
  timeout :: int

section \<open>The two operations\<close>

text \<open>
  An operation yields what the caller sees (\<open>Inl\<close> an exception that propagates,
  \<open>Inr None\<close> the value \<^verbatim>\<open>None\<close>, \<open>Inr (Some r)\<close> a result) and the requests it has
  handed to the requester, in order.
\<close>

text \<open>Sequencing: an exception of the first step ends the computation.\<close>

definition then_do :: "exn + 'a \<Rightarrow> ('a \<Rightarrow> exn + 'b) \<Rightarrow> exn + 'b" where
  "then_do m f = (case m of Inl e \<Rightarrow> Inl e | Inr v \<Rightarrow> f v)"

text \<open>The call of the requester inside \<^verbatim>\<open>try ... except RequestException: return None\<close>.\<close>

definition send :: "LightningAddressProvider \<Rightarrow> request \<Rightarrow> exn + response option" where
  "send self req =
     (case requester self req of
        Inl e \<Rightarrow> (if is_RequestException e then Inr None else Inl e)
      | Inr response \<Rightarrow> Inr (Some response))"

text \<open>
  The content check and the decoding that follow each request: \<open>Inr None\<close> where the
  source returns \<^verbatim>\<open>None\<close>, \<open>Inr (Some data)\<close> with the decoded body otherwise.
\<close>

definition decode_body :: "response \<Rightarrow> exn + pyval option" where
  "decode_body response =
     (if resp_text response = [] \<or> py_strip (resp_text response) = [] then Inr None
      else (case resp_json response of
              Inl e \<Rightarrow> (if is_ValueError e \<or> e = JSONDecodeError then Inr None else Inl e)
            | Inr data \<Rightarrow> Inr (Some data)))"

text \<open>
  The block the source repeats after building each request (lines 37 to 49, 67 to 79 and
  106 to 123): the call, the content check, the decoding.
\<close>

definition fetch :: "LightningAddressProvider \<Rightarrow> request \<Rightarrow> exn + pyval option" where
  "fetch self req =
     (case send self req of
        Inl e \<Rightarrow> Inl e
      | Inr None \<Rightarrow> Inr None
      | Inr (Some response) \<Rightarrow> decode_body response)"

definition keysend_request :: "LightningAddressProvider \<Rightarrow> string \<Rightarrow> string \<Rightarrow> request" where
  "keysend_request self username domain =
     \<lparr>req_method = ''GET'',
      req_url = PStr (''https://'' @ domain @ ''/.well-known/keysend/'' @ username),
      req_params = None,
      req_timeout = timeout self\<rparr>"

text \<open>Lines 51 to 57: the checks on the decoded keysend body and the result.\<close>

definition keysend_result :: "pyval \<Rightarrow> exn + KeysendResponse option" where
  "keysend_result data =
     then_do (py_get data ''status'' PNone) (\<lambda>status.
     if status \<noteq> PStr ''OK'' then Inr None else
     then_do (py_get data ''tag'' PNone) (\<lambda>tag.
     if tag \<noteq> PStr ''keysend'' then Inr None else
     then_do (py_get data ''pubkey'' PNone) (\<lambda>pk.
     then_do (py_get data ''customData'' (PList [])) (\<lambda>cd.
     Inr (Some \<lparr>pubkey = pk, custom_data = cd\<rparr>)))))"

definition resolve_keysend ::
  "LightningAddressProvider \<Rightarrow> string \<Rightarrow> (exn + KeysendResponse option) \<times> request list" where
  "resolve_keysend self lightning_address =
     (if CHR ''@'' \<notin> set lightning_address then (Inr None, [])
      else (case py_split1 CHR ''@'' lightning_address of
        [username, domain] \<Rightarrow>
          (let req = keysend_request self username domain in
           ((case fetch self req of
               Inl e \<Rightarrow> Inl e
             | Inr None \<Rightarrow> Inr None
             | Inr (Some data) \<Rightarrow> keysend_result data),
            [req]))
      | _ \<Rightarrow> (Inl ValueError, [])))"

definition lnurlp_request :: "LightningAddressProvider \<Rightarrow> string \<Rightarrow> string \<Rightarrow> request" where
  "lnurlp_request self username domain =
     \<lparr>req_method = ''GET'',
      req_url = PStr (''https://'' @ domain @ ''/.well-known/lnurlp/'' @ username),
      req_params = None,
      req_timeout = timeout self\<rparr>"

text \<open>
  Lines 81 to 92: the tag, the callback and the amount bounds. \<open>Inr None\<close> where the source
  returns \<^verbatim>\<open>None\<close>, \<open>Inr (Some callback_url)\<close> where it goes on. The \<^verbatim>\<open>or\<close> of line 91
  does not evaluate its second comparison when the first is true.
\<close>

definition lnurlp_checks :: "pyval \<Rightarrow> int \<Rightarrow> exn + pyval option" where
  "lnurlp_checks lnurl_data amount_msats =
     then_do (py_get lnurl_data ''tag'' PNone) (\<lambda>tag.
     if tag \<noteq> PStr ''payRequest'' then Inr None else
     then_do (py_get lnurl_data ''callback'' PNone) (\<lambda>callback_url.
     if \<not> py_truthy callback_url then Inr None else
     then_do (py_get lnurl_data ''minSendable'' (PInt 0)) (\<lambda>min_sendable.
     then_do (py_get lnurl_data ''maxSendable'' (PFloat PosInf)) (\<lambda>max_sendable.
     then_do (py_int_lt amount_msats min_sendable) (\<lambda>below.
     then_do (if below then Inr True else py_int_gt amount_msats max_sendable) (\<lambda>outside.
     if outside then Inr None else Inr (Some callback_url)))))))"

text \<open>
  Lines 95 to 103: the parameters of the callback, in the order the dict receives them.
  The \<^verbatim>\<open>and\<close> of lines 98 and 102 does not evaluate its right side when the str is empty.
\<close>

definition lnurlp_params ::
  "pyval \<Rightarrow> int \<Rightarrow> string \<Rightarrow> string \<Rightarrow> exn + (string \<times> pyval) list" where
  "lnurlp_params lnurl_data amount_msats sender_name message =
     then_do (py_get lnurl_data ''payerData'' (PDict [])) (\<lambda>payer_data.
     then_do (if sender_name \<noteq> [] then py_contains ''name'' payer_data else Inr False)
       (\<lambda>with_name.
     let params = [(''amount'', PInt amount_msats)]
                  @ (if with_name then [(''name'', PStr sender_name)] else []) in
     then_do (py_get payer_data ''commentAllowed'' (PInt 0)) (\<lambda>max_comment_length.
     then_do (if message \<noteq> [] then py_gt_int max_comment_length 0 else Inr False)
       (\<lambda>with_comment.
     if with_comment
     then then_do (py_slice_upto message max_comment_length)
            (\<lambda>comment. Inr (params @ [(''comment'', PStr comment)]))
     else Inr params))))"

definition callback_request ::
  "LightningAddressProvider \<Rightarrow> pyval \<Rightarrow> (string \<times> pyval) list \<Rightarrow> request" where
  "callback_request self callback_url params =
     \<lparr>req_method = ''GET'',
      req_url = callback_url,
      req_params = Some params,
      req_timeout = timeout self\<rparr>"

text \<open>Lines 125 to 131: the invoice of the decoded callback body.\<close>

definition lnurlp_result :: "pyval \<Rightarrow> exn + LnurlpResponse option" where
  "lnurlp_result callback_data =
     then_do (py_get callback_data ''pr'' PNone) (\<lambda>pr.
     if \<not> py_truthy pr then Inr None else Inr (Some \<lparr>invoice = pr\<rparr>))"

text \<open>Lines 94 to 131: what follows the checks, given the requests made so far.\<close>

definition lnurlp_callback ::
  "LightningAddressProvider \<Rightarrow> pyval \<Rightarrow> pyval \<Rightarrow> int \<Rightarrow> string \<Rightarrow> string \<Rightarrow> request list
     \<Rightarrow> (exn + LnurlpResponse option) \<times> request list" where
  "lnurlp_callback self lnurl_data callback_url amount_msats sender_name message made =
     (case lnurlp_params lnurl_data amount_msats sender_name message of
        Inl e \<Rightarrow> (Inl e, made)
      | Inr params \<Rightarrow>
          (let req = callback_request self callback_url params in
           ((case fetch self req of
               Inl e \<Rightarrow> Inl e
             | Inr None \<Rightarrow> Inr None
             | Inr (Some callback_data) \<Rightarrow> lnurlp_result callback_data),
            made @ [req])))"

definition resolve_lnurlp ::
  "LightningAddressProvider \<Rightarrow> string \<Rightarrow> int \<Rightarrow> string \<Rightarrow> string
     \<Rightarrow> (exn + LnurlpResponse option) \<times> request list" where
  "resolve_lnurlp self lightning_address amount_msats sender_name message =
     (if CHR ''@'' \<notin> set lightning_address then (Inr None, [])
      else (case py_split1 CHR ''@'' lightning_address of
        [username, domain] \<Rightarrow>
          (let req = lnurlp_request self username domain in
           (case fetch self req of
              Inl e \<Rightarrow> (Inl e, [req])
            | Inr None \<Rightarrow> (Inr None, [req])
            | Inr (Some lnurl_data) \<Rightarrow>
                (case lnurlp_checks lnurl_data amount_msats of
                   Inl e \<Rightarrow> (Inl e, [req])
                 | Inr None \<Rightarrow> (Inr None, [req])
                 | Inr (Some callback_url) \<Rightarrow>
                     lnurlp_callback self lnurl_data callback_url amount_msats
                       sender_name message [req])))
      | _ \<Rightarrow> (Inl ValueError, [])))"

section \<open>Example transports\<close>

text \<open>Transports with fixed answers, for the concrete instances of the theorems below.\<close>

definition failing_provider :: LightningAddressProvider where
  "failing_provider = \<lparr>requester = (\<lambda>req. Inl RequestException), timeout = 10\<rparr>"

text \<open>
  \<open>stub_provider discovery callback\<close> answers a request without parameters with
  \<open>discovery\<close> and a request with parameters with \<open>callback\<close>.
\<close>

definition stub_provider :: "response \<Rightarrow> response \<Rightarrow> LightningAddressProvider" where
  "stub_provider discovery callback =
     \<lparr>requester = (\<lambda>req. if req_params req = None then Inr discovery else Inr callback),
      timeout = 10\<rparr>"

definition json_response :: "string \<Rightarrow> pyval \<Rightarrow> response" where
  "json_response body data = \<lparr>resp_text = body, resp_json = Inr data, status_code = 200\<rparr>"

definition keysend_ok :: response where
  "keysend_ok = json_response ''{...}''
     (PDict [(''status'', PStr ''OK''), (''tag'', PStr ''keysend''), (''pubkey'', PStr ''02ab''),
             (''customData'', PList [PDict [(''key'', PStr ''k''), (''value'', PStr ''v'')]])])"

text \<open>The same body under another HTTP status.\<close>

definition keysend_not_found :: response where
  "keysend_not_found = \<lparr>resp_text = ''{...}'',
     resp_json = Inr (PDict [(''status'', PStr ''OK''), (''tag'', PStr ''keysend''),
             (''pubkey'', PStr ''02ab''),
             (''customData'', PList [PDict [(''key'', PStr ''k''), (''value'', PStr ''v'')]])]),
     status_code = 404\<rparr>"

definition lnurlp_discovery :: response where
  "lnurlp_discovery = json_response ''{...}''
     (PDict [(''tag'', PStr ''payRequest''), (''callback'', PStr ''https://x/cb''),
             (''minSendable'', PInt 1000), (''maxSendable'', PInt 500000),
             (''payerData'', PDict [(''name'', PDict [(''mandatory'', PBool False)]),
                                    (''commentAllowed'', PInt 5)])])"

definition lnurlp_invoice :: response where
  "lnurlp_invoice = json_response ''{...}'' (PDict [(''pr'', PStr ''lnbc1'')])"

text \<open>A discovery body whose lower bound exceeds its upper bound.\<close>

definition inverted_bounds :: response where
  "inverted_bounds = json_response ''{...}''
     (PDict [(''tag'', PStr ''payRequest''), (''callback'', PStr ''https://x/cb''),
             (''minSendable'', PInt 10), (''maxSendable'', PInt 5)])"

section \<open>What the provider reads of an answer\<close>

text \<open>
  Of what the requester does, the provider reads the exception raised, or the text and the
  decoded body of the response; the HTTP status is not among them.
\<close>

definition observed :: "exn + response \<Rightarrow> exn + string \<times> (exn + pyval)" where
  "observed answer =
     (case answer of Inl e \<Rightarrow> Inl e | Inr r \<Rightarrow> Inr (resp_text r, resp_json r))"

section \<open>Answers the provider handles\<close>

text \<open>
  The predicates of the statements about exceptions. A field is \<open>absent_or P\<close> when the
  object has no such key or its value satisfies \<open>P\<close>.
\<close>

definition absent_or :: "(pyval \<Rightarrow> bool) \<Rightarrow> (string \<times> pyval) list \<Rightarrow> string \<Rightarrow> bool" where
  "absent_or P d k = (case map_of d k of None \<Rightarrow> True | Some v \<Rightarrow> P v)"

definition is_number :: "pyval \<Rightarrow> bool" where
  "is_number v = (as_number v \<noteq> None)"

fun is_int :: "pyval \<Rightarrow> bool" where
  "is_int (PInt n) = True"
| "is_int _ = False"

fun is_dict :: "pyval \<Rightarrow> bool" where
  "is_dict (PDict d) = True"
| "is_dict _ = False"

fun typed_payer_data :: "pyval \<Rightarrow> bool" where
  "typed_payer_data (PDict pd) = absent_or is_int pd ''commentAllowed''"
| "typed_payer_data _ = False"

text \<open>The fields \<open>resolve_lnurlp\<close> compares or slices with have the types it expects.\<close>

definition typed_fields :: "(string \<times> pyval) list \<Rightarrow> bool" where
  "typed_fields d =
     (absent_or is_number d ''minSendable'' \<and>
      absent_or is_number d ''maxSendable'' \<and>
      absent_or typed_payer_data d ''payerData'')"

fun is_typed_dict :: "pyval \<Rightarrow> bool" where
  "is_typed_dict (PDict d) = typed_fields d"
| "is_typed_dict _ = False"

text \<open>The test of lines 43, 73 and 117: the text is empty or only whitespace.\<close>

definition blank_body :: "response \<Rightarrow> bool" where
  "blank_body r = (resp_text r = [] \<or> py_strip (resp_text r) = [])"

text \<open>
  A response is blank, or fails to decode with a ValueError, or decodes to a value that
  satisfies \<open>P\<close>.
\<close>

definition body_is :: "(pyval \<Rightarrow> bool) \<Rightarrow> response \<Rightarrow> bool" where
  "body_is P r =
     (blank_body r \<or> (case resp_json r of Inl e \<Rightarrow> is_ValueError e | Inr data \<Rightarrow> P data))"

text \<open>
  Every answer of the requester is a transport failure or such a response.
\<close>

definition answers_are :: "(pyval \<Rightarrow> bool) \<Rightarrow> LightningAddressProvider \<Rightarrow> bool" where
  "answers_are P self =
     (\<forall>req. case requester self req of
              Inl e \<Rightarrow> is_RequestException e
            | Inr r \<Rightarrow> body_is P r)"

text \<open>
  The failures the source turns into \<^verbatim>\<open>None\<close>: a transport failure, a blank body, a
  body that fails to decode.
\<close>

definition recoverable_failure :: "exn + response \<Rightarrow> bool" where
  "recoverable_failure answer =
     (case answer of
        Inl e \<Rightarrow> is_RequestException e
      | Inr r \<Rightarrow> blank_body r \<or> (case resp_json r of Inl e \<Rightarrow> is_ValueError e | Inr _ \<Rightarrow> False))"

text \<open>A body that is the JSON array \<open>[]\<close>.\<close>

definition list_body :: response where
  "list_body = json_response ''[]'' (PList [])"

text \<open>A transport that answers the discovery request and fails on the callback.\<close>

definition flaky_provider :: LightningAddressProvider where
  "flaky_provider =
     \<lparr>requester = (\<lambda>req. if req_params req = None then Inr lnurlp_discovery
                          else Inl RequestException),
      timeout = 10\<rparr>"

section \<open>Address parsing\<close>

lemma py_split1_at:
  "sep \<notin> set u \<Longrightarrow> py_split1 sep (u @ sep # d) = [u, d]"
proof -
  assume u: "sep \<notin> set u"
  have d: "dropWhile (\<lambda>c. c \<noteq> sep) (u @ sep # d) = sep # d"
    using u by (induction u) auto
  have t: "takeWhile (\<lambda>c. c \<noteq> sep) (u @ sep # d) = u"
    using u by (induction u) auto
  show ?thesis by (simp add: py_split1_def d t)
qed

lemma address_parts:
  assumes "CHR ''@'' \<in> set a"
  obtains u d where "a = u @ CHR ''@'' # d" and "CHR ''@'' \<notin> set u"
  using assms split_list_first by fastforce

lemma resolve_keysend_at:
  "CHR ''@'' \<notin> set u \<Longrightarrow>
   resolve_keysend self (u @ CHR ''@'' # d) =
     ((case fetch self (keysend_request self u d) of
         Inl e \<Rightarrow> Inl e
       | Inr None \<Rightarrow> Inr None
       | Inr (Some data) \<Rightarrow> keysend_result data),
      [keysend_request self u d])"
  by (simp add: resolve_keysend_def py_split1_at Let_def)

lemma resolve_lnurlp_at:
  "CHR ''@'' \<notin> set u \<Longrightarrow>
   resolve_lnurlp self (u @ CHR ''@'' # d) amount sn msg =
     (case fetch self (lnurlp_request self u d) of
        Inl e \<Rightarrow> (Inl e, [lnurlp_request self u d])
      | Inr None \<Rightarrow> (Inr None, [lnurlp_request self u d])
      | Inr (Some lnurl_data) \<Rightarrow>
          (case lnurlp_checks lnurl_data amount of
             Inl e \<Rightarrow> (Inl e, [lnurlp_request self u d])
           | Inr None \<Rightarrow> (Inr None, [lnurlp_request self u d])
           | Inr (Some callback_url) \<Rightarrow>
               lnurlp_callback self lnurl_data callback_url amount sn msg
                 [lnurlp_request self u d]))"
  by (simp add: resolve_lnurlp_def py_split1_at Let_def)

text \<open>
  C5. An address without \<open>@\<close> makes both operations return \<^verbatim>\<open>None\<close>, and the list of
  requests handed to the requester is empty: the transport is not invoked.
\<close>

theorem no_at_no_request:
  "CHR ''@'' \<notin> set lightning_address \<Longrightarrow>
     resolve_keysend self lightning_address = (Inr None, []) \<and>
     resolve_lnurlp self lightning_address amount_msats sender_name message = (Inr None, [])"
  by (simp add: resolve_keysend_def resolve_lnurlp_def)

theorem no_at_no_request_witness:
  "CHR ''@'' \<notin> set ''alice.example.com'' \<and>
   resolve_keysend failing_provider ''alice.example.com'' = (Inr None, []) \<and>
   resolve_lnurlp failing_provider ''alice.example.com'' 1000 ''bob'' ''hi'' = (Inr None, [])"
  using no_at_no_request [of "''alice.example.com''" failing_provider 1000 "''bob''" "''hi''"]
  by simp

text \<open>
  C10. For an address with an \<open>@\<close>, the user name is the text before the first \<open>@\<close> and
  the domain everything after it, further \<open>@\<close> included; both are placed unchanged into
  the URL of the discovery request, which is the only request of \<open>resolve_keysend\<close> and
  the first one of \<open>resolve_lnurlp\<close>.
\<close>

theorem discovery_url_verbatim:
  "CHR ''@'' \<notin> set username \<Longrightarrow>
     snd (resolve_keysend self (username @ CHR ''@'' # domain)) =
       [\<lparr>req_method = ''GET'',
         req_url = PStr (''https://'' @ domain @ ''/.well-known/keysend/'' @ username),
         req_params = None, req_timeout = timeout self\<rparr>] \<and>
     take 1 (snd (resolve_lnurlp self (username @ CHR ''@'' # domain)
                    amount_msats sender_name message)) =
       [\<lparr>req_method = ''GET'',
         req_url = PStr (''https://'' @ domain @ ''/.well-known/lnurlp/'' @ username),
         req_params = None, req_timeout = timeout self\<rparr>]"
  by (simp add: resolve_keysend_at resolve_lnurlp_at keysend_request_def lnurlp_request_def
      lnurlp_callback_def Let_def split: sum.split option.split)

theorem discovery_url_verbatim_witness:
  "CHR ''@'' \<notin> set ''a b/c?'' \<and>
   snd (resolve_keysend failing_provider ''a b/c?@x y@z/w?q'') =
     [\<lparr>req_method = ''GET'', req_url = PStr ''https://x y@z/w?q/.well-known/keysend/a b/c?'',
       req_params = None, req_timeout = 10\<rparr>] \<and>
   take 1 (snd (resolve_lnurlp failing_provider ''a b/c?@x y@z/w?q'' 1000 ''bob'' ''hi'')) =
     [\<lparr>req_method = ''GET'', req_url = PStr ''https://x y@z/w?q/.well-known/lnurlp/a b/c?'',
       req_params = None, req_timeout = 10\<rparr>]"
  using discovery_url_verbatim
    [of "''a b/c?''" failing_provider "''x y@z/w?q''" 1000 "''bob''" "''hi''"]
  by (simp add: failing_provider_def)

section \<open>Fetching and decoding\<close>

lemma py_strip_nonempty: "py_strip t \<noteq> [] \<Longrightarrow> t \<noteq> []"
  by (auto simp: py_strip_def)

lemma fetch_decoded:
  "requester self req = Inr response \<Longrightarrow> py_strip (resp_text response) \<noteq> [] \<Longrightarrow>
   resp_json response = Inr data \<Longrightarrow> fetch self req = Inr (Some data)"
  by (auto simp: fetch_def send_def decode_body_def dest: py_strip_nonempty)

lemma fetch_cases:
  "fetch self req =
     (case requester self req of
        Inl e \<Rightarrow> (if is_RequestException e then Inr None else Inl e)
      | Inr response \<Rightarrow> decode_body response)"
  by (simp add: fetch_def send_def split: sum.split)

lemma fetch_observed:
  "observed (requester p req) = observed (requester q req) \<Longrightarrow> fetch p req = fetch q req"
  by (auto simp: observed_def fetch_cases decode_body_def split: sum.splits)

section \<open>Keysend\<close>

lemma keysend_result_dict:
  "keysend_result (PDict data) =
     Inr (if map_of data ''status'' = Some (PStr ''OK'') \<and>
             map_of data ''tag'' = Some (PStr ''keysend'')
          then Some \<lparr>pubkey = (case map_of data ''pubkey'' of Some v \<Rightarrow> v | None \<Rightarrow> PNone),
                     custom_data = (case map_of data ''customData'' of Some v \<Rightarrow> v
                                    | None \<Rightarrow> PList [])\<rparr>
          else None)"
  by (auto simp: keysend_result_def then_do_def split: option.splits)

text \<open>
  C7. When the discovery body of \<open>resolve_keysend\<close> decodes to an object, the result is
  populated exactly when the field \<open>status\<close> is \<open>OK\<close> and the field \<open>tag\<close> is
  \<open>keysend\<close>; its \<open>pubkey\<close> is the field of that name, \<^verbatim>\<open>None\<close> when absent, and its
  \<open>custom_data\<close> the field \<open>customData\<close>, the empty list when absent.
\<close>

theorem keysend_object_result:
  assumes "CHR ''@'' \<notin> set username"
      and "requester self (keysend_request self username domain) = Inr response"
      and "py_strip (resp_text response) \<noteq> []"
      and "resp_json response = Inr (PDict data)"
  shows "fst (resolve_keysend self (username @ CHR ''@'' # domain)) =
     Inr (if map_of data ''status'' = Some (PStr ''OK'') \<and>
             map_of data ''tag'' = Some (PStr ''keysend'')
          then Some \<lparr>pubkey = (case map_of data ''pubkey'' of Some v \<Rightarrow> v | None \<Rightarrow> PNone),
                     custom_data = (case map_of data ''customData'' of Some v \<Rightarrow> v
                                    | None \<Rightarrow> PList [])\<rparr>
          else None)"
  using assms by (simp add: resolve_keysend_at fetch_decoded keysend_result_dict)

theorem keysend_object_result_witness:
  "fst (resolve_keysend (stub_provider keysend_ok keysend_ok) ''alice@example.com'') =
     Inr (Some \<lparr>pubkey = PStr ''02ab'',
                custom_data = PList [PDict [(''key'', PStr ''k''), (''value'', PStr ''v'')]]\<rparr>)"
  using keysend_object_result [of "''alice''" "stub_provider keysend_ok keysend_ok"
      "''example.com''" keysend_ok
      "[(''status'', PStr ''OK''), (''tag'', PStr ''keysend''), (''pubkey'', PStr ''02ab''),
        (''customData'', PList [PDict [(''key'', PStr ''k''), (''value'', PStr ''v'')]])]"]
  by (simp add: stub_provider_def keysend_ok_def json_response_def keysend_request_def
      py_strip_def py_isspace_def)

text \<open>
  C6, as the claim has it, asks for exactly one \<open>@\<close>. An address with two of them is
  resolved all the same, split at the first.
\<close>

theorem exactly_one_at_counterexample:
  "count_list ''alice@example.com@evil'' CHR ''@'' = 2 \<and>
   resolve_keysend (stub_provider keysend_ok keysend_ok) ''alice@example.com@evil'' =
     (Inr (Some \<lparr>pubkey = PStr ''02ab'',
                 custom_data = PList [PDict [(''key'', PStr ''k''), (''value'', PStr ''v'')]]\<rparr>),
      [\<lparr>req_method = ''GET'',
        req_url = PStr ''https://example.com@evil/.well-known/keysend/alice'',
        req_params = None, req_timeout = 10\<rparr>])"
  by (simp add: resolve_keysend_def py_split1_def fetch_def send_def decode_body_def
      keysend_result_def then_do_def stub_provider_def keysend_ok_def json_response_def
      keysend_request_def py_strip_def py_isspace_def Let_def)

text \<open>
  C6, amended. An operation goes past the parsing (it hands a request to the requester)
  exactly when the address holds at least one \<open>@\<close>; without one it returns \<^verbatim>\<open>None\<close>,
  and with one the first request is the discovery request for the parts before and
  after the first \<open>@\<close>.
\<close>

theorem proceeds_iff_some_at:
  "(snd (resolve_keysend self a) \<noteq> []) = (CHR ''@'' \<in> set a) \<and>
   (snd (resolve_lnurlp self a amount sn msg) \<noteq> []) = (CHR ''@'' \<in> set a) \<and>
   (CHR ''@'' \<notin> set a \<longrightarrow>
      fst (resolve_keysend self a) = Inr None \<and>
      fst (resolve_lnurlp self a amount sn msg) = Inr None) \<and>
   (CHR ''@'' \<in> set a \<longrightarrow>
      (\<exists>u d. a = u @ CHR ''@'' # d \<and> CHR ''@'' \<notin> set u \<and>
         hd (snd (resolve_keysend self a)) = keysend_request self u d \<and>
         hd (snd (resolve_lnurlp self a amount sn msg)) = lnurlp_request self u d))"
proof (cases "CHR ''@'' \<in> set a")
  case False
  then show ?thesis by (simp add: resolve_keysend_def resolve_lnurlp_def)
next
  case True
  then obtain u d where a: "a = u @ CHR ''@'' # d" and u: "CHR ''@'' \<notin> set u"
    by (rule address_parts)
  have k: "snd (resolve_keysend self a) = [keysend_request self u d]"
    using u by (simp add: a resolve_keysend_at)
  have l: "\<exists>rest. snd (resolve_lnurlp self a amount sn msg) = lnurlp_request self u d # rest"
    using u by (simp add: a resolve_lnurlp_at lnurlp_callback_def Let_def
        split: sum.split option.split)
  from l obtain rest where l': "snd (resolve_lnurlp self a amount sn msg) = lnurlp_request self u d # rest" ..
  show ?thesis using True a u k l' by auto
qed

theorem proceeds_iff_some_at_witness:
  "snd (resolve_keysend failing_provider ''alice@example.com@evil'') \<noteq> [] \<and>
   snd (resolve_lnurlp failing_provider ''alice@example.com@evil'' 1000 ''bob'' ''hi'') \<noteq> []"
  using proceeds_iff_some_at [of failing_provider "''alice@example.com@evil''" 1000 "''bob''" "''hi''"]
  by simp

section \<open>The amount bounds\<close>

lemma lnurlp_checks_outside:
  assumes "py_get (PDict data) ''minSendable'' (PInt 0) = Inr min_sendable"
      and "as_number min_sendable = Some lo"
      and "py_get (PDict data) ''maxSendable'' (PFloat PosInf) = Inr max_sendable"
      and "as_number max_sendable = Some hi"
      and "float_lt (Finite (of_int amount)) lo \<or> float_lt hi (Finite (of_int amount))"
  shows "lnurlp_checks (PDict data) amount = Inr None"
  using assms
  by (auto simp: lnurlp_checks_def then_do_def py_int_lt_def py_int_gt_def)

text \<open>
  C8. When the discovery body is an object whose bounds are numbers and the amount is
  below the lower or above the upper one, \<open>resolve_lnurlp\<close> returns \<^verbatim>\<open>None\<close> and the
  discovery request is the only request made.
\<close>

theorem amount_out_of_range_single_request:
  assumes "CHR ''@'' \<notin> set username"
      and "requester self (lnurlp_request self username domain) = Inr response"
      and "resp_json response = Inr (PDict data)"
      and "py_get (PDict data) ''minSendable'' (PInt 0) = Inr min_sendable"
      and "as_number min_sendable = Some lo"
      and "py_get (PDict data) ''maxSendable'' (PFloat PosInf) = Inr max_sendable"
      and "as_number max_sendable = Some hi"
      and "float_lt (Finite (of_int amount_msats)) lo \<or> float_lt hi (Finite (of_int amount_msats))"
  shows "resolve_lnurlp self (username @ CHR ''@'' # domain) amount_msats sender_name message =
           (Inr None, [lnurlp_request self username domain])"
proof -
  have c: "lnurlp_checks (PDict data) amount_msats = Inr None"
    using assms(4-8) by (rule lnurlp_checks_outside)
  have "fetch self (lnurlp_request self username domain) = Inr None \<or>
        fetch self (lnurlp_request self username domain) = Inr (Some (PDict data))"
    using assms(2,3) by (simp add: fetch_cases decode_body_def)
  then show ?thesis
    using assms(1) c by (auto simp: resolve_lnurlp_at)
qed

theorem amount_out_of_range_single_request_witness:
  "resolve_lnurlp (stub_provider lnurlp_discovery lnurlp_invoice) ''alice@example.com'' 999
      '''' ''hello world'' =
     (Inr None, [lnurlp_request (stub_provider lnurlp_discovery lnurlp_invoice)
                   ''alice'' ''example.com'']) \<and>
   resolve_lnurlp (stub_provider lnurlp_discovery lnurlp_invoice) ''alice@example.com'' 500001
      '''' ''hello world'' =
     (Inr None, [lnurlp_request (stub_provider lnurlp_discovery lnurlp_invoice)
                   ''alice'' ''example.com''])"
proof -
  let ?p = "stub_provider lnurlp_discovery lnurlp_invoice"
  let ?d = "[(''tag'', PStr ''payRequest''), (''callback'', PStr ''https://x/cb''),
             (''minSendable'', PInt 1000), (''maxSendable'', PInt 500000),
             (''payerData'', PDict [(''name'', PDict [(''mandatory'', PBool False)]),
                                    (''commentAllowed'', PInt 5)])]"
  have a: "CHR ''@'' \<notin> set ''alice''" by simp
  have r: "requester ?p (lnurlp_request ?p ''alice'' ''example.com'') = Inr lnurlp_discovery"
    by (simp add: stub_provider_def lnurlp_request_def)
  have j: "resp_json lnurlp_discovery = Inr (PDict ?d)"
    by (simp add: lnurlp_discovery_def json_response_def)
  have mn: "py_get (PDict ?d) ''minSendable'' (PInt 0) = Inr (PInt 1000)" by simp
  have mx: "py_get (PDict ?d) ''maxSendable'' (PFloat PosInf) = Inr (PInt 500000)" by simp
  have lo: "as_number (PInt 1000) = Some (Finite 1000)" by simp
  have hi: "as_number (PInt 500000) = Some (Finite 500000)" by simp
  have b1: "float_lt (Finite (of_int 999)) (Finite 1000) \<or>
            float_lt (Finite 500000) (Finite (of_int 999))" by simp
  have b2: "float_lt (Finite (of_int 500001)) (Finite 1000) \<or>
            float_lt (Finite 500000) (Finite (of_int 500001))" by simp
  show ?thesis
    using amount_out_of_range_single_request [OF a r j mn lo mx hi b1, of "''''" "''hello world''"]
          amount_out_of_range_single_request [OF a r j mn lo mx hi b2, of "''''" "''hello world''"]
    by simp
qed

lemma lnurlp_checks_int_bounds:
  assumes "map_of data ''tag'' = Some (PStr ''payRequest'')"
      and "map_of data ''callback'' = Some callback_url" and "py_truthy callback_url"
      and "py_get (PDict data) ''minSendable'' (PInt 0) = Inr (PInt mn)"
  shows "py_get (PDict data) ''maxSendable'' (PFloat PosInf) = Inr (PInt mx) \<Longrightarrow>
           lnurlp_checks (PDict data) a = Inr (if mn \<le> a \<and> a \<le> mx then Some callback_url else None)"
    and "map_of data ''maxSendable'' = None \<Longrightarrow>
           lnurlp_checks (PDict data) a = Inr (if mn \<le> a then Some callback_url else None)"
  using assms
  by (auto simp: lnurlp_checks_def then_do_def py_int_lt_def py_int_gt_def)

text \<open>
  C2, amended. The lower bound is the field \<open>minSendable\<close>, 0 when absent; the upper
  bound is the field \<open>maxSendable\<close>, and there is none when it is absent. For integer
  bounds with the lower at most the upper, the amounts equal to either bound pass the
  check; the amount one below the lower bound and the amount one above the upper bound
  make the operation return \<^verbatim>\<open>None\<close>, whatever the order of the bounds.
\<close>

theorem bounds_inclusive:
  assumes "map_of data ''tag'' = Some (PStr ''payRequest'')"
      and "map_of data ''callback'' = Some callback_url" and "py_truthy callback_url"
      and "py_get (PDict data) ''minSendable'' (PInt 0) = Inr (PInt mn)"
  shows "(map_of data ''minSendable'' = None \<longrightarrow> mn = 0) \<and>
         (py_get (PDict data) ''maxSendable'' (PFloat PosInf) = Inr (PInt mx) \<longrightarrow>
            (mn \<le> mx \<longrightarrow> lnurlp_checks (PDict data) mn = Inr (Some callback_url) \<and>
                        lnurlp_checks (PDict data) mx = Inr (Some callback_url)) \<and>
            lnurlp_checks (PDict data) (mn - 1) = Inr None \<and>
            lnurlp_checks (PDict data) (mx + 1) = Inr None) \<and>
         (map_of data ''maxSendable'' = None \<longrightarrow>
            (\<forall>a. mn \<le> a \<longrightarrow> lnurlp_checks (PDict data) a = Inr (Some callback_url)) \<and>
            lnurlp_checks (PDict data) (mn - 1) = Inr None)"
proof -
  have m: "map_of data ''minSendable'' = None \<longrightarrow> mn = 0"
    using assms(4) by auto
  show ?thesis
    using m lnurlp_checks_int_bounds [OF assms] by simp
qed

theorem bounds_inclusive_witness:
  "lnurlp_checks (PDict [(''tag'', PStr ''payRequest''), (''callback'', PStr ''https://x/cb''),
                         (''minSendable'', PInt 1000), (''maxSendable'', PInt 500000)]) 1000
     = Inr (Some (PStr ''https://x/cb'')) \<and>
   lnurlp_checks (PDict [(''tag'', PStr ''payRequest''), (''callback'', PStr ''https://x/cb''),
                         (''minSendable'', PInt 1000), (''maxSendable'', PInt 500000)]) 500000
     = Inr (Some (PStr ''https://x/cb'')) \<and>
   lnurlp_checks (PDict [(''tag'', PStr ''payRequest''), (''callback'', PStr ''https://x/cb''),
                         (''minSendable'', PInt 1000), (''maxSendable'', PInt 500000)]) 999
     = Inr None \<and>
   lnurlp_checks (PDict [(''tag'', PStr ''payRequest''), (''callback'', PStr ''https://x/cb''),
                         (''minSendable'', PInt 1000), (''maxSendable'', PInt 500000)]) 500001
     = Inr None"
proof -
  let ?d = "[(''tag'', PStr ''payRequest''), (''callback'', PStr ''https://x/cb''),
             (''minSendable'', PInt 1000), (''maxSendable'', PInt 500000)]"
  have t: "map_of ?d ''tag'' = Some (PStr ''payRequest'')" by simp
  have c: "map_of ?d ''callback'' = Some (PStr ''https://x/cb'')" by simp
  have y: "py_truthy (PStr ''https://x/cb'')" by simp
  have mn: "py_get (PDict ?d) ''minSendable'' (PInt 0) = Inr (PInt 1000)" by simp
  have mx: "py_get (PDict ?d) ''maxSendable'' (PFloat PosInf) = Inr (PInt 500000)" by simp
  show ?thesis
    using bounds_inclusive [OF t c y mn, of 500000] mx by simp
qed

text \<open>
  C2, as the claim has it, lets an amount equal to either declared bound pass. A body
  that declares a lower bound of 10 and an upper bound of 5 rejects both amounts, and
  the callback is not requested.
\<close>

theorem bounds_inclusive_counterexample:
  "resp_json inverted_bounds =
     Inr (PDict [(''tag'', PStr ''payRequest''), (''callback'', PStr ''https://x/cb''),
                 (''minSendable'', PInt 10), (''maxSendable'', PInt 5)]) \<and>
   resolve_lnurlp (stub_provider inverted_bounds lnurlp_invoice) ''alice@example.com'' 10 '''' ''''
     = (Inr None, [lnurlp_request (stub_provider inverted_bounds lnurlp_invoice)
                     ''alice'' ''example.com'']) \<and>
   resolve_lnurlp (stub_provider inverted_bounds lnurlp_invoice) ''alice@example.com'' 5 '''' ''''
     = (Inr None, [lnurlp_request (stub_provider inverted_bounds lnurlp_invoice)
                     ''alice'' ''example.com''])"
  by (simp add: resolve_lnurlp_def py_split1_def fetch_def send_def decode_body_def
      lnurlp_checks_def then_do_def py_int_lt_def py_int_gt_def stub_provider_def
      inverted_bounds_def json_response_def lnurlp_request_def py_strip_def py_isspace_def
      Let_def)

section \<open>The parameters of the callback\<close>

lemma lnurlp_callback_trace:
  "lnurlp_params d amount sn msg = Inr ps \<Longrightarrow>
   snd (lnurlp_callback self d cb amount sn msg made) = made @ [callback_request self cb ps]"
  by (simp add: lnurlp_callback_def Let_def)

lemma resolve_lnurlp_reaches_callback:
  assumes "CHR ''@'' \<notin> set u"
      and "requester self (lnurlp_request self u dm) = Inr response"
      and "py_strip (resp_text response) \<noteq> []"
      and "resp_json response = Inr d"
      and "lnurlp_checks d amount = Inr (Some cb)"
  shows "resolve_lnurlp self (u @ CHR ''@'' # dm) amount sn msg =
           lnurlp_callback self d cb amount sn msg [lnurlp_request self u dm]"
  using assms by (simp add: resolve_lnurlp_at fetch_decoded)

lemma lnurlp_params_typed:
  assumes "py_get (PDict d) ''payerData'' (PDict []) = Inr (PDict pd)"
      and "py_get (PDict pd) ''commentAllowed'' (PInt 0) = Inr (PInt n)"
  shows "lnurlp_params (PDict d) amount sn msg =
           Inr ([(''amount'', PInt amount)]
                @ (if sn \<noteq> [] \<and> ''name'' \<in> set (map fst pd) then [(''name'', PStr sn)] else [])
                @ (if msg \<noteq> [] \<and> 0 < n then [(''comment'', PStr (take (nat n) msg))] else []))"
  using assms
  by (auto simp: lnurlp_params_def then_do_def py_gt_int_def Let_def)

text \<open>
  C3. When the checks pass, \<open>payerData\<close> is an object or absent, and its
  \<open>commentAllowed\<close> is an integer \<open>n\<close> (0 when absent), the callback is requested and
  its parameters hold a comment exactly when the message is non-empty and \<open>n\<close> is
  positive; the comment is the first \<open>n\<close> characters of the message, which is the whole
  message when it has at most \<open>n\<close> characters. No length of the message raises.
\<close>

theorem comment_truncated:
  assumes "CHR ''@'' \<notin> set username"
      and "requester self (lnurlp_request self username domain) = Inr response"
      and "py_strip (resp_text response) \<noteq> []"
      and "resp_json response = Inr (PDict data)"
      and "lnurlp_checks (PDict data) amount_msats = Inr (Some callback_url)"
      and "py_get (PDict data) ''payerData'' (PDict []) = Inr (PDict payer_data)"
      and "py_get (PDict payer_data) ''commentAllowed'' (PInt 0) = Inr (PInt n)"
  shows "\<exists>params.
           snd (resolve_lnurlp self (username @ CHR ''@'' # domain) amount_msats sender_name message) =
             [lnurlp_request self username domain, callback_request self callback_url params] \<and>
           map_of params ''comment'' =
             (if message \<noteq> [] \<and> 0 < n then Some (PStr (take (nat n) message)) else None) \<and>
           (0 < n \<and> n < int (length message) \<longrightarrow> length (take (nat n) message) = nat n) \<and>
           (int (length message) \<le> n \<longrightarrow> take (nat n) message = message)"
proof -
  let ?ps = "[(''amount'', PInt amount_msats)]
             @ (if sender_name \<noteq> [] \<and> ''name'' \<in> set (map fst payer_data)
                then [(''name'', PStr sender_name)] else [])
             @ (if message \<noteq> [] \<and> 0 < n then [(''comment'', PStr (take (nat n) message))] else [])"
  have p: "lnurlp_params (PDict data) amount_msats sender_name message = Inr ?ps"
    using assms(6,7) by (rule lnurlp_params_typed)
  have t: "snd (resolve_lnurlp self (username @ CHR ''@'' # domain) amount_msats sender_name message) =
             [lnurlp_request self username domain, callback_request self callback_url ?ps]"
    using resolve_lnurlp_reaches_callback [OF assms(1-5)] lnurlp_callback_trace [OF p]
    by simp
  have c: "map_of ?ps ''comment'' =
             (if message \<noteq> [] \<and> 0 < n then Some (PStr (take (nat n) message)) else None)"
    by simp
  have l: "0 < n \<and> n < int (length message) \<longrightarrow> length (take (nat n) message) = nat n"
    by auto
  have u: "int (length message) \<le> n \<longrightarrow> take (nat n) message = message"
    by auto
  show ?thesis using t c l u by blast
qed

theorem comment_truncated_witness:
  "\<exists>params.
     snd (resolve_lnurlp (stub_provider lnurlp_discovery lnurlp_invoice) ''alice@example.com''
            2000 [] ''hello world'') =
       [lnurlp_request (stub_provider lnurlp_discovery lnurlp_invoice) ''alice'' ''example.com'',
        callback_request (stub_provider lnurlp_discovery lnurlp_invoice) (PStr ''https://x/cb'')
          params] \<and>
     map_of params ''comment'' = Some (PStr ''hello'')"
proof -
  let ?p = "stub_provider lnurlp_discovery lnurlp_invoice"
  let ?pd = "[(''name'', PDict [(''mandatory'', PBool False)]), (''commentAllowed'', PInt 5)]"
  let ?d = "[(''tag'', PStr ''payRequest''), (''callback'', PStr ''https://x/cb''),
             (''minSendable'', PInt 1000), (''maxSendable'', PInt 500000),
             (''payerData'', PDict ?pd)]"
  have a: "CHR ''@'' \<notin> set ''alice''" by simp
  have r: "requester ?p (lnurlp_request ?p ''alice'' ''example.com'') = Inr lnurlp_discovery"
    by (simp add: stub_provider_def lnurlp_request_def)
  have s: "py_strip (resp_text lnurlp_discovery) \<noteq> []"
    by (simp add: lnurlp_discovery_def json_response_def py_strip_def py_isspace_def)
  have j: "resp_json lnurlp_discovery = Inr (PDict ?d)"
    by (simp add: lnurlp_discovery_def json_response_def)
  have c: "lnurlp_checks (PDict ?d) 2000 = Inr (Some (PStr ''https://x/cb''))"
    by (simp add: lnurlp_checks_def then_do_def py_int_lt_def py_int_gt_def)
  have pd: "py_get (PDict ?d) ''payerData'' (PDict []) = Inr (PDict ?pd)" by simp
  have ca: "py_get (PDict ?pd) ''commentAllowed'' (PInt 0) = Inr (PInt 5)" by simp
  have tk: "take (nat 5) ''hello world'' = ''hello''" by (simp add: take_Cons')
  show ?thesis
    using comment_truncated [OF a r s j c pd ca, of "[]" "''hello world''"] tk
    by simp
qed

lemma lnurlp_params_name:
  assumes "lnurlp_params (PDict d) amount sn msg = Inr ps"
  shows "map_of ps ''name'' =
           (if sn \<noteq> [] \<and> (\<exists>pd. map_of d ''payerData'' = Some (PDict pd) \<and> ''name'' \<in> set (map fst pd))
            then Some (PStr sn) else None)"
proof -
  obtain pdv where g: "py_get (PDict d) ''payerData'' (PDict []) = Inr pdv"
    by simp
  from assms g obtain pd where pd: "pdv = PDict pd"
    by (cases pdv) (auto simp: lnurlp_params_def then_do_def split: if_splits sum.splits)
  have k: "(\<exists>pd'. map_of d ''payerData'' = Some (PDict pd') \<and> ''name'' \<in> set (map fst pd'))
           = (''name'' \<in> set (map fst pd))"
    using g pd by (auto split: option.splits)
  show ?thesis
    using assms g pd unfolding k
    by (auto simp: lnurlp_params_def then_do_def Let_def split: if_splits sum.splits)
qed

text \<open>
  C4. When the checks pass and the parameters of the callback are built, the callback
  request holds the parameter \<open>name\<close> exactly when the sender name is non-empty and
  \<open>payerData\<close> is an object with a key \<open>name\<close>; its value is the sender name.
\<close>

theorem name_param_iff:
  assumes "CHR ''@'' \<notin> set username"
      and "requester self (lnurlp_request self username domain) = Inr response"
      and "py_strip (resp_text response) \<noteq> []"
      and "resp_json response = Inr (PDict data)"
      and "lnurlp_checks (PDict data) amount_msats = Inr (Some callback_url)"
      and "lnurlp_params (PDict data) amount_msats sender_name message = Inr params"
  shows "snd (resolve_lnurlp self (username @ CHR ''@'' # domain) amount_msats sender_name message) =
           [lnurlp_request self username domain, callback_request self callback_url params] \<and>
         map_of params ''name'' =
           (if sender_name \<noteq> [] \<and>
               (\<exists>payer_data. map_of data ''payerData'' = Some (PDict payer_data) \<and>
                              ''name'' \<in> set (map fst payer_data))
            then Some (PStr sender_name) else None)"
  using resolve_lnurlp_reaches_callback [OF assms(1-5)] lnurlp_callback_trace [OF assms(6)]
        lnurlp_params_name [OF assms(6)]
  by simp

theorem name_param_iff_witness:
  "snd (resolve_lnurlp (stub_provider lnurlp_discovery lnurlp_invoice) ''alice@example.com''
          2000 ''bob'' []) =
     [lnurlp_request (stub_provider lnurlp_discovery lnurlp_invoice) ''alice'' ''example.com'',
      callback_request (stub_provider lnurlp_discovery lnurlp_invoice) (PStr ''https://x/cb'')
        [(''amount'', PInt 2000), (''name'', PStr ''bob'')]] \<and>
   map_of [(''amount'', PInt 2000), (''name'', PStr ''bob'')] ''name'' = Some (PStr ''bob'')"
proof -
  let ?p = "stub_provider lnurlp_discovery lnurlp_invoice"
  let ?pd = "[(''name'', PDict [(''mandatory'', PBool False)]), (''commentAllowed'', PInt 5)]"
  let ?d = "[(''tag'', PStr ''payRequest''), (''callback'', PStr ''https://x/cb''),
             (''minSendable'', PInt 1000), (''maxSendable'', PInt 500000),
             (''payerData'', PDict ?pd)]"
  have a: "CHR ''@'' \<notin> set ''alice''" by simp
  have r: "requester ?p (lnurlp_request ?p ''alice'' ''example.com'') = Inr lnurlp_discovery"
    by (simp add: stub_provider_def lnurlp_request_def)
  have s: "py_strip (resp_text lnurlp_discovery) \<noteq> []"
    by (simp add: lnurlp_discovery_def json_response_def py_strip_def py_isspace_def)
  have j: "resp_json lnurlp_discovery = Inr (PDict ?d)"
    by (simp add: lnurlp_discovery_def json_response_def)
  have c: "lnurlp_checks (PDict ?d) 2000 = Inr (Some (PStr ''https://x/cb''))"
    by (simp add: lnurlp_checks_def then_do_def py_int_lt_def py_int_gt_def)
  have ps: "lnurlp_params (PDict ?d) 2000 ''bob'' [] =
              Inr [(''amount'', PInt 2000), (''name'', PStr ''bob'')]"
    by (simp add: lnurlp_params_def then_do_def Let_def)
  show ?thesis
    using name_param_iff [OF a r s j c ps] by simp
qed

section \<open>Both operations read only the bodies\<close>

text \<open>
  C9. Two providers with the same timeout whose requesters give, to every request, the
  same exception or responses of the same text and decoded body, make both operations
  yield the same outcome and the same requests, for equal arguments.
\<close>

theorem same_bodies_same_results:
  assumes "timeout p = timeout q"
      and "\<forall>req. observed (requester p req) = observed (requester q req)"
  shows "resolve_keysend p a = resolve_keysend q a \<and>
         resolve_lnurlp p a amount sn msg = resolve_lnurlp q a amount sn msg"
proof -
  have f: "\<And>req. fetch p req = fetch q req"
    using assms(2) fetch_observed by blast
  have k: "\<And>u d. keysend_request p u d = keysend_request q u d"
    using assms(1) by (simp add: keysend_request_def)
  have l: "\<And>u d. lnurlp_request p u d = lnurlp_request q u d"
    using assms(1) by (simp add: lnurlp_request_def)
  have c: "\<And>cb ps. callback_request p cb ps = callback_request q cb ps"
    using assms(1) by (simp add: callback_request_def)
  have cb: "\<And>d cb made. lnurlp_callback p d cb amount sn msg made =
                          lnurlp_callback q d cb amount sn msg made"
    by (simp add: lnurlp_callback_def f c Let_def split: sum.split)
  show ?thesis
    by (simp add: resolve_keysend_def resolve_lnurlp_def f k l cb Let_def
        split: list.split sum.split option.split)
qed

theorem same_bodies_same_results_witness:
  "status_code keysend_ok \<noteq> status_code keysend_not_found \<and>
   resolve_keysend (stub_provider keysend_ok lnurlp_invoice) ''alice@example.com'' =
   resolve_keysend (stub_provider keysend_not_found lnurlp_invoice) ''alice@example.com'' \<and>
   resolve_lnurlp (stub_provider keysend_ok lnurlp_invoice) ''alice@example.com'' 2000 ''bob'' ''hi'' =
   resolve_lnurlp (stub_provider keysend_not_found lnurlp_invoice) ''alice@example.com'' 2000 ''bob'' ''hi''"
proof -
  let ?p = "stub_provider keysend_ok lnurlp_invoice"
  let ?q = "stub_provider keysend_not_found lnurlp_invoice"
  have t: "timeout ?p = timeout ?q" by (simp add: stub_provider_def)
  have o: "\<forall>req. observed (requester ?p req) = observed (requester ?q req)"
    by (simp add: stub_provider_def observed_def keysend_ok_def keysend_not_found_def
        json_response_def)
  have s: "status_code keysend_ok \<noteq> status_code keysend_not_found"
    by (simp add: keysend_ok_def keysend_not_found_def json_response_def)
  show ?thesis
    using s same_bodies_same_results [OF t o, of "''alice@example.com''" 2000 "''bob''" "''hi''"]
    by simp
qed

section \<open>Exceptions\<close>

lemma decode_body_cases:
  "decode_body r =
     (if blank_body r then Inr None
      else (case resp_json r of
              Inl e \<Rightarrow> (if is_ValueError e then Inr None else Inl e)
            | Inr data \<Rightarrow> Inr (Some data)))"
  by (simp add: decode_body_def blank_body_def is_ValueError_def split: sum.split)

lemma fetch_recoverable:
  assumes "recoverable_failure (requester self req)"
  shows "fetch self req = Inr None"
proof (cases "requester self req")
  case (Inl e)
  then show ?thesis using assms by (simp add: recoverable_failure_def fetch_cases)
next
  case (Inr r)
  then have "blank_body r \<or> (\<exists>e. resp_json r = Inl e \<and> is_ValueError e)"
    using assms by (cases "resp_json r") (simp_all add: recoverable_failure_def)
  then have "decode_body r = Inr None"
    by (auto simp: decode_body_cases)
  then show ?thesis using Inr by (simp add: fetch_cases)
qed

lemma fetch_answers_are:
  assumes "answers_are P self"
  shows "fetch self req = Inr None \<or> (\<exists>data. fetch self req = Inr (Some data) \<and> P data)"
proof (cases "requester self req")
  case (Inl e)
  then have "is_RequestException e"
    using assms by (auto simp: answers_are_def split: sum.splits)
  then show ?thesis using Inl by (simp add: fetch_cases)
next
  case (Inr r)
  then have b: "body_is P r"
    using assms by (auto simp: answers_are_def split: sum.splits)
  show ?thesis
  proof (cases "blank_body r")
    case True
    then show ?thesis using Inr by (simp add: fetch_cases decode_body_cases)
  next
    case False
    show ?thesis
    proof (cases "resp_json r")
      case (Inl e)
      then have "is_ValueError e" using b False by (simp add: body_is_def)
      then show ?thesis using Inr Inl False by (simp add: fetch_cases decode_body_cases)
    next
      case (Inr data)
      then have "P data" using b False by (simp add: body_is_def)
      then show ?thesis using \<open>requester self req = Inr r\<close> Inr False
        by (simp add: fetch_cases decode_body_cases)
    qed
  qed
qed

lemma py_get_absent_or:
  assumes "absent_or P d k" and "P dflt"
  shows "\<exists>v. py_get (PDict d) k dflt = Inr v \<and> P v"
  using assms by (cases "map_of d k") (simp_all add: absent_or_def)

lemma py_int_lt_number: "is_number v \<Longrightarrow> \<exists>b. py_int_lt a v = Inr b"
  by (cases "as_number v") (simp_all add: is_number_def py_int_lt_def)

lemma py_int_gt_number: "is_number v \<Longrightarrow> \<exists>b. py_int_gt a v = Inr b"
  by (cases "as_number v") (simp_all add: is_number_def py_int_gt_def)

lemma lnurlp_checks_typed:
  assumes "typed_fields d"
  shows "\<exists>r. lnurlp_checks (PDict d) amount = Inr r"
proof -
  obtain mn where mn: "py_get (PDict d) ''minSendable'' (PInt 0) = Inr mn" "is_number mn"
    using py_get_absent_or [of is_number d "''minSendable''" "PInt 0"] assms
    by (auto simp: typed_fields_def is_number_def)
  obtain mx where mx: "py_get (PDict d) ''maxSendable'' (PFloat PosInf) = Inr mx" "is_number mx"
    using py_get_absent_or [of is_number d "''maxSendable''" "PFloat PosInf"] assms
    by (auto simp: typed_fields_def is_number_def)
  obtain below where b: "py_int_lt amount mn = Inr below"
    using py_int_lt_number [OF mn(2)] by blast
  obtain above where a: "py_int_gt amount mx = Inr above"
    using py_int_gt_number [OF mx(2)] by blast
  obtain tag where t: "py_get (PDict d) ''tag'' PNone = Inr tag" by simp
  obtain cb where c: "py_get (PDict d) ''callback'' PNone = Inr cb" by simp
  show ?thesis
    by (simp add: lnurlp_checks_def then_do_def t c mn(1) mx(1) b a del: py_get.simps)
qed

lemma lnurlp_params_no_raise:
  assumes "typed_fields d"
  shows "\<exists>ps. lnurlp_params (PDict d) amount sn msg = Inr ps"
proof -
  obtain pdv where p: "py_get (PDict d) ''payerData'' (PDict []) = Inr pdv" "typed_payer_data pdv"
    using py_get_absent_or [of typed_payer_data d "''payerData''" "PDict []"] assms
    by (auto simp: typed_fields_def absent_or_def)
  from p(2) obtain pd where pd: "pdv = PDict pd" and ca: "absent_or is_int pd ''commentAllowed''"
    by (cases pdv) simp_all
  obtain cav where c: "py_get (PDict pd) ''commentAllowed'' (PInt 0) = Inr cav" "is_int cav"
    using py_get_absent_or [of is_int pd "''commentAllowed''" "PInt 0"] ca by auto
  from c(2) obtain n where n: "cav = PInt n" by (cases cav) simp_all
  have "lnurlp_params (PDict d) amount sn msg =
           Inr ([(''amount'', PInt amount)]
                @ (if sn \<noteq> [] \<and> ''name'' \<in> set (map fst pd) then [(''name'', PStr sn)] else [])
                @ (if msg \<noteq> [] \<and> 0 < n then [(''comment'', PStr (take (nat n) msg))] else []))"
    using p(1) c(1) unfolding pd n by (rule lnurlp_params_typed)
  then show ?thesis by blast
qed

lemma keysend_result_no_raise: "is_dict data \<Longrightarrow> \<exists>r. keysend_result data = Inr r"
  by (cases data) (simp_all add: keysend_result_dict)

lemma lnurlp_result_no_raise: "is_dict data \<Longrightarrow> \<exists>r. lnurlp_result data = Inr r"
  by (cases data) (simp_all add: lnurlp_result_def then_do_def)

lemma is_typed_dict_dict: "is_typed_dict data \<Longrightarrow> is_dict data"
  by (cases data) simp_all

lemma resolve_keysend_no_raise:
  assumes "answers_are is_dict self"
  shows "\<exists>r. fst (resolve_keysend self a) = Inr r"
proof (cases "CHR ''@'' \<in> set a")
  case False
  then show ?thesis by (simp add: resolve_keysend_def)
next
  case True
  then obtain u d where a: "a = u @ CHR ''@'' # d" and u: "CHR ''@'' \<notin> set u"
    by (rule address_parts)
  from fetch_answers_are [OF assms, of "keysend_request self u d"]
  show ?thesis
  proof
    assume "fetch self (keysend_request self u d) = Inr None"
    then show ?thesis using u by (simp add: a resolve_keysend_at)
  next
    assume "\<exists>data. fetch self (keysend_request self u d) = Inr (Some data) \<and> is_dict data"
    then obtain data where f: "fetch self (keysend_request self u d) = Inr (Some data)"
      and "is_dict data" by blast
    then obtain r where "keysend_result data = Inr r"
      using keysend_result_no_raise by blast
    then show ?thesis using u f by (simp add: a resolve_keysend_at)
  qed
qed

lemma lnurlp_callback_no_raise:
  assumes "answers_are is_typed_dict self" and "typed_fields d"
  shows "\<exists>r. fst (lnurlp_callback self (PDict d) cb amount sn msg made) = Inr r"
    and "recoverable_failure (requester self
           (callback_request self cb (projr (lnurlp_params (PDict d) amount sn msg)))) \<Longrightarrow>
         fst (lnurlp_callback self (PDict d) cb amount sn msg made) = Inr None"
proof -
  obtain ps where ps: "lnurlp_params (PDict d) amount sn msg = Inr ps"
    using lnurlp_params_no_raise [OF assms(2)] by blast
  have fst_cb: "fst (lnurlp_callback self (PDict d) cb amount sn msg made) =
          (case fetch self (callback_request self cb ps) of
             Inl e \<Rightarrow> Inl e | Inr None \<Rightarrow> Inr None
           | Inr (Some callback_data) \<Rightarrow> lnurlp_result callback_data)"
    by (simp add: lnurlp_callback_def ps Let_def)
  from fetch_answers_are [OF assms(1), of "callback_request self cb ps"]
  show "\<exists>r. fst (lnurlp_callback self (PDict d) cb amount sn msg made) = Inr r"
  proof
    assume "fetch self (callback_request self cb ps) = Inr None"
    then show ?thesis by (simp add: fst_cb)
  next
    assume "\<exists>data. fetch self (callback_request self cb ps) = Inr (Some data) \<and> is_typed_dict data"
    then obtain data where f: "fetch self (callback_request self cb ps) = Inr (Some data)"
      and "is_dict data" using is_typed_dict_dict by blast
    then obtain r where "lnurlp_result data = Inr r"
      using lnurlp_result_no_raise by blast
    then show ?thesis using f by (simp add: fst_cb)
  qed
  show "fst (lnurlp_callback self (PDict d) cb amount sn msg made) = Inr None"
    if "recoverable_failure (requester self
           (callback_request self cb (projr (lnurlp_params (PDict d) amount sn msg))))"
    using fetch_recoverable [OF that] by (simp add: fst_cb ps)
qed

lemma resolve_lnurlp_no_raise:
  assumes "answers_are is_typed_dict self"
  shows "\<exists>r. fst (resolve_lnurlp self a amount sn msg) = Inr r"
proof (cases "CHR ''@'' \<in> set a")
  case False
  then show ?thesis by (simp add: resolve_lnurlp_def)
next
  case True
  then obtain u d where a: "a = u @ CHR ''@'' # d" and u: "CHR ''@'' \<notin> set u"
    by (rule address_parts)
  from fetch_answers_are [OF assms, of "lnurlp_request self u d"]
  show ?thesis
  proof
    assume "fetch self (lnurlp_request self u d) = Inr None"
    then show ?thesis using u by (simp add: a resolve_lnurlp_at)
  next
    assume "\<exists>data. fetch self (lnurlp_request self u d) = Inr (Some data) \<and> is_typed_dict data"
    then obtain data where f: "fetch self (lnurlp_request self u d) = Inr (Some data)"
      and t: "is_typed_dict data" by blast
    from t obtain dd where dd: "data = PDict dd" and td: "typed_fields dd"
      by (cases data) simp_all
    obtain c where c: "lnurlp_checks (PDict dd) amount = Inr c"
      using lnurlp_checks_typed [OF td] by blast
    show ?thesis
    proof (cases c)
      case None
      then show ?thesis using u f c by (simp add: a resolve_lnurlp_at dd)
    next
      case (Some cb)
      then have "resolve_lnurlp self a amount sn msg =
                   lnurlp_callback self (PDict dd) cb amount sn msg [lnurlp_request self u d]"
        using u f c by (simp add: a resolve_lnurlp_at dd)
      then show ?thesis
        using lnurlp_callback_no_raise(1) [OF assms td] by simp
    qed
  qed
qed

lemma resolve_lnurlp_callback_fails:
  assumes "answers_are is_typed_dict self"
      and "\<forall>cb ps. recoverable_failure (requester self (callback_request self cb ps))"
  shows "fst (resolve_lnurlp self a amount sn msg) = Inr None"
proof (cases "CHR ''@'' \<in> set a")
  case False
  then show ?thesis by (simp add: resolve_lnurlp_def)
next
  case True
  then obtain u d where a: "a = u @ CHR ''@'' # d" and u: "CHR ''@'' \<notin> set u"
    by (rule address_parts)
  from fetch_answers_are [OF assms(1), of "lnurlp_request self u d"]
  show ?thesis
  proof
    assume "fetch self (lnurlp_request self u d) = Inr None"
    then show ?thesis using u by (simp add: a resolve_lnurlp_at)
  next
    assume "\<exists>data. fetch self (lnurlp_request self u d) = Inr (Some data) \<and> is_typed_dict data"
    then obtain data where f: "fetch self (lnurlp_request self u d) = Inr (Some data)"
      and t: "is_typed_dict data" by blast
    from t obtain dd where dd: "data = PDict dd" and td: "typed_fields dd"
      by (cases data) simp_all
    obtain c where c: "lnurlp_checks (PDict dd) amount = Inr c"
      using lnurlp_checks_typed [OF td] by blast
    show ?thesis
    proof (cases c)
      case None
      then show ?thesis using u f c by (simp add: a resolve_lnurlp_at dd)
    next
      case (Some cb)
      then have "resolve_lnurlp self a amount sn msg =
                   lnurlp_callback self (PDict dd) cb amount sn msg [lnurlp_request self u d]"
        using u f c by (simp add: a resolve_lnurlp_at dd)
      then show ?thesis
        using lnurlp_callback_no_raise(2) [OF assms(1) td] assms(2) by simp
    qed
  qed
qed

text \<open>
  C1, amended. When the requester raises only transport failures and every body it
  returns is blank, fails to decode with a ValueError, or decodes to an object,
  \<open>resolve_keysend\<close> raises nothing; \<open>resolve_lnurlp\<close> raises nothing when moreover
  the fields of the objects have the types read (numbers for the bounds, an object for
  \<open>payerData\<close>, an integer for \<open>commentAllowed\<close>). A transport failure, a blank body
  and a body that fails to decode give \<^verbatim>\<open>None\<close>, at the discovery request and at the
  callback request.
\<close>

theorem no_exception_on_typed_bodies:
  "(answers_are is_dict self \<longrightarrow> (\<exists>r. fst (resolve_keysend self a) = Inr r)) \<and>
   (answers_are is_typed_dict self \<longrightarrow>
      (\<exists>r. fst (resolve_lnurlp self a amount sn msg) = Inr r)) \<and>
   (\<forall>u d. a = u @ CHR ''@'' # d \<and> CHR ''@'' \<notin> set u \<and>
          recoverable_failure (requester self (keysend_request self u d)) \<longrightarrow>
          fst (resolve_keysend self a) = Inr None) \<and>
   (\<forall>u d. a = u @ CHR ''@'' # d \<and> CHR ''@'' \<notin> set u \<and>
          recoverable_failure (requester self (lnurlp_request self u d)) \<longrightarrow>
          fst (resolve_lnurlp self a amount sn msg) = Inr None) \<and>
   (answers_are is_typed_dict self \<and>
    (\<forall>cb ps. recoverable_failure (requester self (callback_request self cb ps))) \<longrightarrow>
      fst (resolve_lnurlp self a amount sn msg) = Inr None)"
proof (intro conjI impI allI)
  show "\<exists>r. fst (resolve_keysend self a) = Inr r" if "answers_are is_dict self"
    using that by (rule resolve_keysend_no_raise)
  show "\<exists>r. fst (resolve_lnurlp self a amount sn msg) = Inr r"
    if "answers_are is_typed_dict self"
    using that by (rule resolve_lnurlp_no_raise)
  show "fst (resolve_keysend self a) = Inr None"
    if "a = u @ CHR ''@'' # d \<and> CHR ''@'' \<notin> set u \<and>
        recoverable_failure (requester self (keysend_request self u d))" for u d
    using that fetch_recoverable [of self "keysend_request self u d"]
    by (simp add: resolve_keysend_at)
  show "fst (resolve_lnurlp self a amount sn msg) = Inr None"
    if "a = u @ CHR ''@'' # d \<and> CHR ''@'' \<notin> set u \<and>
        recoverable_failure (requester self (lnurlp_request self u d))" for u d
    using that fetch_recoverable [of self "lnurlp_request self u d"]
    by (simp add: resolve_lnurlp_at)
  show "fst (resolve_lnurlp self a amount sn msg) = Inr None"
    if "answers_are is_typed_dict self \<and>
        (\<forall>cb ps. recoverable_failure (requester self (callback_request self cb ps)))"
    using that resolve_lnurlp_callback_fails by blast
qed

lemma flaky_typed: "answers_are is_typed_dict flaky_provider"
  by (simp add: answers_are_def flaky_provider_def body_is_def blank_body_def
      lnurlp_discovery_def json_response_def typed_fields_def absent_or_def is_number_def
      is_RequestException_def py_strip_def py_isspace_def)

lemma flaky_dict: "answers_are is_dict flaky_provider"
  by (simp add: answers_are_def flaky_provider_def body_is_def blank_body_def
      lnurlp_discovery_def json_response_def is_RequestException_def py_strip_def
      py_isspace_def)

lemma flaky_callback:
  "\<forall>cb ps. recoverable_failure (requester flaky_provider (callback_request flaky_provider cb ps))"
  by (simp add: recoverable_failure_def flaky_provider_def callback_request_def
      is_RequestException_def)

lemma failing_recoverable: "recoverable_failure (requester failing_provider req)"
  by (simp add: recoverable_failure_def failing_provider_def is_RequestException_def)

theorem no_exception_on_typed_bodies_witness:
  "(\<exists>r. fst (resolve_keysend flaky_provider ''alice@example.com'') = Inr r) \<and>
   (\<exists>r. fst (resolve_lnurlp flaky_provider ''alice@example.com'' 2000 ''bob'' ''hi'') = Inr r) \<and>
   fst (resolve_lnurlp flaky_provider ''alice@example.com'' 2000 ''bob'' ''hi'') = Inr None \<and>
   fst (resolve_keysend failing_provider ''alice@example.com'') = Inr None \<and>
   fst (resolve_lnurlp failing_provider ''alice@example.com'' 2000 ''bob'' ''hi'') = Inr None"
proof -
  have s: "''alice@example.com'' = ''alice'' @ CHR ''@'' # ''example.com''" by simp
  have u: "CHR ''@'' \<notin> set ''alice''" by simp
  show ?thesis
    using no_exception_on_typed_bodies
            [of flaky_provider "''alice@example.com''" 2000 "''bob''" "''hi''"]
          no_exception_on_typed_bodies
            [of failing_provider "''alice@example.com''" 2000 "''bob''" "''hi''"]
          flaky_typed flaky_dict flaky_callback failing_recoverable s u
    by blast
qed

text \<open>
  C1, as the claim has it, lets no body make an operation raise. A body that decodes to
  a list has no method \<^verbatim>\<open>get\<close>, and the AttributeError reaches the caller.
\<close>

theorem list_body_raises_counterexample:
  "resolve_keysend (stub_provider list_body list_body) ''alice@example.com'' =
     (Inl AttributeError,
      [keysend_request (stub_provider list_body list_body) ''alice'' ''example.com''])"
  by (simp add: resolve_keysend_def py_split1_def fetch_def send_def decode_body_def
      keysend_result_def then_do_def stub_provider_def list_body_def json_response_def
      keysend_request_def py_strip_def py_isspace_def is_ValueError_def Let_def)

end
